theory Spec2Isabelle
  imports Complex_Main
begin

section \<open>EcoFinance Pro: the data and the computations of EcoFinance\_pro.py\<close>

text \<open>
  The program is one script: a form that inserts a row into the table
  \<open>operaciones_mineras\<close>, a keyword-routed answer function \<open>consulta_ia\<close> over
  the frame read back from the table, a simulation block and a report block.

  Conventions of the model.
  \<^item> A frame is the list of the table's rows, in insertion order.
  \<^item> Numbers are float64 values: a finite double (the real number it denotes), an
    infinity or NaN. Every arithmetic operation rounds its exact result to the
    nearest double, ties to even, as IEEE 754 does. Zero has no sign: the widgets
    give no negative number, so a negative zero does not arise.
  \<^item> pandas reads a table without rows as a frame of object columns, on which the
    three handlers raise; a table with rows is read as a frame of float64 columns.
  \<^item> The texts of the answer and of the report are kept as structured values: each
    interpolated expression is a field holding the value before formatting. The
    texts of the simulation are modelled as the strings the dictionary holds.
    Labels that are not ASCII in the source are transliterated.
\<close>

subsection \<open>float64 arithmetic\<close>

datatype f64 = Fin real | PInf | NInf | NaN

text \<open>Rounding to the nearest integer, ties to the even one.\<close>

definition rhe :: "real \<Rightarrow> int" where
  "rhe x =
     (let f = \<lfloor>x\<rfloor>; d = x - of_int f
      in if d < 1 / 2 then f else if 1 / 2 < d then f + 1
         else if even f then f else f + 1)"

text \<open>
  \<open>escala k m e\<close> rewrites \<open>m * 2 ^ e\<close> with a significand in \<open>[2^52, 2^53)\<close>, or a
  smaller one at the least exponent \<open>- 1074\<close> (subnormal numbers). \<open>k\<close> bounds the
  number of steps; 2200 steps cover every quotient and product of two doubles.
\<close>

fun escala :: "nat \<Rightarrow> real \<Rightarrow> int \<Rightarrow> real \<times> int" where
  "escala 0 m e = (m, e)"
| "escala (Suc k) m e =
     (if 2 ^ 53 \<le> m then escala k (m / 2) (e + 1)
      else if m < 2 ^ 52 \<and> - 1074 < e then escala k (m * 2) (e - 1)
      else (m, e))"

definition dos_a_la :: "int \<Rightarrow> real" where
  "dos_a_la e = (if 0 \<le> e then 2 ^ nat e else 1 / 2 ^ nat (- e))"

text \<open>The double nearest to a positive real; plus infinity from \<open>2^1024 - 2^970\<close> on.\<close>

definition redondear_pos :: "real \<Rightarrow> f64" where
  "redondear_pos x =
     (case escala 2200 x 0 of
        (m, e) \<Rightarrow>
          let r = of_int (rhe m) * dos_a_la e
          in if 2 ^ 1024 \<le> r then PInf else Fin r)"

fun fneg :: "f64 \<Rightarrow> f64" where
  "fneg (Fin x) = Fin (- x)"
| "fneg PInf = NInf"
| "fneg NInf = PInf"
| "fneg NaN = NaN"

definition redondear :: "real \<Rightarrow> f64" where
  "redondear x =
     (if x = 0 then Fin 0
      else if 0 < x then redondear_pos x
      else fneg (redondear_pos (- x)))"

text \<open>\<open>a + b\<close>, \<open>a * b\<close> and \<open>a / b\<close> on float64 values.\<close>

fun fadd :: "f64 \<Rightarrow> f64 \<Rightarrow> f64" where
  "fadd (Fin a) (Fin b) = redondear (a + b)"
| "fadd NaN b = NaN"
| "fadd a NaN = NaN"
| "fadd PInf NInf = NaN"
| "fadd NInf PInf = NaN"
| "fadd PInf b = PInf"
| "fadd NInf b = NInf"
| "fadd a PInf = PInf"
| "fadd a NInf = NInf"

text \<open>The sign of a value: 1, 0 or -1; NaN has none.\<close>

fun signo :: "f64 \<Rightarrow> int option" where
  "signo (Fin a) = Some (if 0 < a then 1 else if a < 0 then - 1 else 0)"
| "signo PInf = Some 1"
| "signo NInf = Some (- 1)"
| "signo NaN = None"

definition infinito :: "int \<Rightarrow> f64" where
  "infinito s = (if 0 < s then PInf else if s < 0 then NInf else NaN)"

fun fmul :: "f64 \<Rightarrow> f64 \<Rightarrow> f64" where
  "fmul (Fin a) (Fin b) = redondear (a * b)"
| "fmul a b =
     (case (signo a, signo b) of
        (Some s, Some t) \<Rightarrow> infinito (s * t)
      | _ \<Rightarrow> NaN)"

text \<open>
  Division as numpy does it on float64 scalars: a zero divisor gives an infinity
  (NaN for \<open>0 / 0\<close>) and a warning, no exception.
\<close>

fun fdiv :: "f64 \<Rightarrow> f64 \<Rightarrow> f64" where
  "fdiv (Fin a) (Fin b) =
     (if b \<noteq> 0 then redondear (a / b)
      else if 0 < a then PInf
      else if a < 0 then NInf
      else NaN)"
| "fdiv NaN b = NaN"
| "fdiv a NaN = NaN"
| "fdiv (Fin a) b = Fin 0"
| "fdiv a (Fin b) = (if b < 0 then fneg a else a)"
| "fdiv a b = NaN"

text \<open>\<open>a < b\<close> on floats: every comparison with NaN is false.\<close>

fun fless :: "f64 \<Rightarrow> f64 \<Rightarrow> bool" where
  "fless (Fin a) (Fin b) = (a < b)"
| "fless (Fin a) PInf = True"
| "fless NInf (Fin b) = True"
| "fless NInf PInf = True"
| "fless a b = False"

subsection \<open>Python errors\<close>

datatype pyerr = ValueError | TypeError | ZeroDivisionError | OverflowError

subsection \<open>The table \<open>operaciones_mineras\<close>\<close>

text \<open>The options of the form's select box, in the order of the source.\<close>

datatype proceso = Extraccion | Procesamiento | Transporte | Relaves

type_synonym fecha = "nat \<times> nat \<times> nat"

record fila =
  rowid :: nat
  fecha :: fecha
  proceso :: proceso
  material :: string
  agua_m3 :: f64
  energia_kwh :: f64
  co2_ton :: f64
  residuos_ton :: f64
  produccion_ton :: f64
  ingresos_soles :: f64
  gastos_soles :: f64
  inversion_ambiental_soles :: f64

type_synonym tabla = "fila list"

text \<open>
  \<open>id INTEGER PRIMARY KEY AUTOINCREMENT\<close> with \<open>NULL\<close> inserted: one more than the
  largest id of the table (no row is ever deleted).
\<close>

definition siguiente_id :: "tabla \<Rightarrow> nat" where
  "siguiente_id t = Suc (fold max (map rowid t) 0)"

text \<open>
  The insert of the form \<open>form_mineria\<close>; the products are Python float products.
  \<^verbatim>\<open>(fecha, proceso, "Cobre", agua, energia, co2, 0, produccion,
    produccion*5000, produccion*3500, co2*40)\<close>
\<close>

definition guardar_datos ::
  "fecha \<Rightarrow> proceso \<Rightarrow> f64 \<Rightarrow> f64 \<Rightarrow> f64 \<Rightarrow> f64 \<Rightarrow> tabla \<Rightarrow> tabla" where
  "guardar_datos f p agua energia co2 produccion t =
     t @ [\<lparr>rowid = siguiente_id t, fecha = f, proceso = p, material = ''Cobre'',
           agua_m3 = agua, energia_kwh = energia, co2_ton = co2, residuos_ton = Fin 0,
           produccion_ton = produccion,
           ingresos_soles = fmul produccion (Fin 5000),
           gastos_soles = fmul produccion (Fin 3500),
           inversion_ambiental_soles = fmul co2 (Fin 40)\<rparr>]"

text \<open>The value of a number widget: the double nearest to the number typed.\<close>

definition number_input :: "real \<Rightarrow> f64" where
  "number_input x = redondear x"

subsection \<open>pandas operations used by the script\<close>

text \<open>
  \<open>df[col].sum()\<close> on a float64 column: NaN entries count as 0, and the values are
  added by numpy's pairwise summation: in sequence below 8 values; with eight
  running sums up to 128 values; by halves (at a multiple of 8) above.
\<close>

fun sin_nan :: "f64 \<Rightarrow> f64" where
  "sin_nan NaN = Fin 0"
| "sin_nan v = v"

function bloques :: "f64 list \<Rightarrow> f64 list \<Rightarrow> f64 list \<times> f64 list" where
  "bloques r xs =
     (if length xs < 8 then (r, xs)
      else bloques (map2 fadd r (take 8 xs)) (drop 8 xs))"
  by pat_completeness auto
termination
  by (relation "measure (\<lambda>(r, xs). length xs)") auto

fun combinar :: "f64 list \<Rightarrow> f64" where
  "combinar [r0, r1, r2, r3, r4, r5, r6, r7] =
     fadd (fadd (fadd r0 r1) (fadd r2 r3)) (fadd (fadd r4 r5) (fadd r6 r7))"
| "combinar r = foldl fadd (Fin 0) r"

function pairwise_sum :: "f64 list \<Rightarrow> f64" where
  "pairwise_sum xs =
     (if length xs < 8 then foldl fadd (Fin 0) xs
      else if length xs \<le> 128 then
        (case bloques (take 8 xs) (drop 8 xs) of
           (r, resto) \<Rightarrow> foldl fadd (combinar r) resto)
      else
        (let n2 = length xs div 2 - (length xs div 2) mod 8
         in fadd (pairwise_sum (take n2 xs)) (pairwise_sum (drop n2 xs))))"
  by pat_completeness auto
termination
  by (relation "measure length") auto

definition suma :: "(fila \<Rightarrow> f64) \<Rightarrow> fila list \<Rightarrow> f64" where
  "suma col df = pairwise_sum (map (\<lambda>r. sin_nan (col r)) df)"

text \<open>
  \<open>df[col].mean()\<close>: the sum divided by the number of entries that are not NaN; NaN
  when there is none.
\<close>

definition media :: "(fila \<Rightarrow> f64) \<Rightarrow> fila list \<Rightarrow> f64" where
  "media col df =
     (let n = length (filter (\<lambda>r. col r \<noteq> NaN) df)
      in if n = 0 then NaN else fdiv (suma col df) (Fin (real n)))"

text \<open>
  \<open>df.groupby('proceso')\<close>: one group for each label that occurs, the groups in the
  sorted order of their labels (Extraccion, Procesamiento, Relaves, Transporte).
\<close>

definition orden_claves :: "proceso list" where
  "orden_claves = [Extraccion, Procesamiento, Relaves, Transporte]"

definition claves :: "fila list \<Rightarrow> proceso list" where
  "claves df = filter (\<lambda>p. p \<in> set (map proceso df)) orden_claves"

definition grupo :: "proceso \<Rightarrow> fila list \<Rightarrow> fila list" where
  "grupo p df = filter (\<lambda>r. proceso r = p) df"

type_synonym serie = "(proceso \<times> f64) list"

text \<open>
  \<open>sort_values(ascending=False)\<close>: descending, NaN last, equal values in their
  former order. \<open>antes a b\<close>: \<open>a\<close> has to stand strictly before \<open>b\<close>.
\<close>

fun antes :: "f64 \<Rightarrow> f64 \<Rightarrow> bool" where
  "antes NaN b = False"
| "antes a NaN = True"
| "antes a b = fless b a"

fun insertar :: "proceso \<times> f64 \<Rightarrow> serie \<Rightarrow> serie" where
  "insertar x [] = [x]"
| "insertar x (y # ys) =
     (if antes (snd y) (snd x) then y # insertar x ys else x # y # ys)"

definition sort_values_desc :: "serie \<Rightarrow> serie" where
  "sort_values_desc s = foldr insertar s []"

text \<open>\<open>Series.max()\<close>: the largest value that is not NaN; NaN when there is none.\<close>

fun fmax :: "f64 \<Rightarrow> f64 \<Rightarrow> f64" where
  "fmax NaN b = b"
| "fmax a NaN = a"
| "fmax a b = (if fless a b then b else a)"

definition serie_max :: "serie \<Rightarrow> f64" where
  "serie_max s = fold fmax (map snd s) NaN"

text \<open>
  \<open>Series.idxmax()\<close>: the label of the first largest value, a value that is not NaN
  before NaN; pandas raises ValueError on a Series without entries.
\<close>

fun idxmax_desde :: "proceso \<times> f64 \<Rightarrow> serie \<Rightarrow> proceso" where
  "idxmax_desde m [] = fst m"
| "idxmax_desde m (x # xs) = idxmax_desde (if antes (snd x) (snd m) then x else m) xs"

fun idxmax :: "serie \<Rightarrow> pyerr + proceso" where
  "idxmax [] = Inl ValueError"
| "idxmax (x # xs) = Inr (idxmax_desde x xs)"

subsection \<open>Strings: \<open>str.lower()\<close>, \<open>in\<close> and number formats\<close>

text \<open>
  A string is its UTF-8 bytes. \<open>lower\<close> maps the letters A to Z to a to z and leaves
  every other byte; the triggers are ASCII, so a match is decided by ASCII letters.
\<close>

definition lower_char :: "char \<Rightarrow> char" where
  "lower_char c =
     (case map_of (zip ''ABCDEFGHIJKLMNOPQRSTUVWXYZ'' ''abcdefghijklmnopqrstuvwxyz'') c of
        Some d \<Rightarrow> d
      | None \<Rightarrow> c)"

definition lower :: "string \<Rightarrow> string" where
  "lower s = map lower_char s"

text \<open>\<open>p in s\<close>: \<open>p\<close> occurs in \<open>s\<close> as a contiguous substring.\<close>

fun subcadena :: "string \<Rightarrow> string \<Rightarrow> bool" where
  "subcadena p [] = (p = [])"
| "subcadena p (c # cs) = (take (length p) (c # cs) = p \<or> subcadena p cs)"

text \<open>The decimal digits of an integer that is not negative, and \<open>str\<close> of an integer.\<close>

function digitos :: "int \<Rightarrow> string" where
  "digitos n =
     (if n < 10 then [''0123456789'' ! nat n]
      else digitos (n div 10) @ [''0123456789'' ! nat (n mod 10)])"
  by pat_completeness auto
termination
  by (relation "measure nat") auto

definition str_int :: "int \<Rightarrow> string" where
  "str_int i = (if i < 0 then ''-'' @ digitos (- i) else digitos i)"

text \<open>The thousands separator of the format \<open>,\<close>: a comma before every group of three.\<close>

function comas :: "string \<Rightarrow> string" where
  "comas s =
     (if length s \<le> 3 then s
      else comas (take (length s - 3) s) @ '','' @ drop (length s - 3) s)"
  by pat_completeness auto
termination
  by (relation "measure length") auto

text \<open>
  The format \<open>,.0f\<close> of a float: its exact value rounded to the nearest integer, ties
  to even, with thousands separators.
\<close>

fun formato_comas_0f :: "f64 \<Rightarrow> string" where
  "formato_comas_0f (Fin x) =
     (if x < 0 then ''-'' @ comas (digitos (- rhe x)) else comas (digitos (rhe x)))"
| "formato_comas_0f PInf = ''inf''"
| "formato_comas_0f NInf = ''-inf''"
| "formato_comas_0f NaN = ''nan''"

text \<open>
  \<open>float(i)\<close> for a Python integer, as \<open>i * 0.2\<close> converts its left operand: the nearest
  double, OverflowError beyond the range of the doubles.
\<close>

definition float_de_int :: "int \<Rightarrow> pyerr + f64" where
  "float_de_int i =
     (case redondear (of_int i) of
        Fin x \<Rightarrow> Inr (Fin x)
      | _ \<Rightarrow> Inl OverflowError)"

subsection \<open>The answer function \<open>consulta_ia\<close>\<close>

datatype clave_norma = Ley_General_del_Ambiente | Limite_CO2_Mineria | Agua | Multas

fun normas_peru :: "clave_norma \<Rightarrow> string" where
  "normas_peru Ley_General_del_Ambiente = ''Ley N 28611''"
| "normas_peru Limite_CO2_Mineria = ''50 ton/dia (DS N 003-2014-MINAM)''"
| "normas_peru Agua = ''Limite 5000 m3/dia (Ley de Recursos Hidricos)''"
| "normas_peru Multas = ''Hasta 10,000 UIT por incumplimiento''"

text \<open>The two marks the script prints for a verdict: a check mark and a cross.\<close>

datatype marca = Check | Cruz

text \<open>
  What \<open>mejor_proceso\<close> can hold: a label of the index, or the bound method
  \<open>idxmax\<close> of a Series (the Series it is bound to is kept).
\<close>

datatype pyvalor = Etiqueta proceso | Metodo_idxmax serie

text \<open>
  \<^verbatim>\<open>eficiencia = df.groupby('proceso').apply(
      lambda x: x['produccion_ton'].sum()/x['agua_m3'].sum()
  ).sort_values(ascending=False)\<close>
  On a frame without rows \<open>apply\<close> gives a frame, whose \<open>sort_values\<close> lacks the
  argument \<open>by\<close>: TypeError.
\<close>

definition eficiencia :: "fila list \<Rightarrow> pyerr + serie" where
  "eficiencia df =
     (if df = [] then Inl TypeError
      else Inr (sort_values_desc
        (map (\<lambda>p. (p, fdiv (suma produccion_ton (grupo p df)) (suma agua_m3 (grupo p df))))
             (claves df))))"

text \<open>\<open>df[col].sum()/30\<close>, the quantity per day of a month of thirty days.\<close>

definition por_dia :: "(fila \<Rightarrow> f64) \<Rightarrow> fila list \<Rightarrow> f64" where
  "por_dia col df = fdiv (suma col df) (Fin 30)"

record hidrico =
  mejor_proceso :: pyvalor
  eficiencia_max :: f64
  recomendacion :: string
  limite_agua :: string
  uso_diario :: f64

text \<open>
  The branch of the trigger \<open>agua\<close>. The source binds
  \<^verbatim>\<open>mejor_proceso = eficiencia.idxmax\<close>
  the attribute, without a call, and interpolates that value.
\<close>

definition analisis_agua :: "fila list \<Rightarrow> pyerr + hidrico" where
  "analisis_agua df =
     (case eficiencia df of
        Inl e \<Rightarrow> Inl e
      | Inr s \<Rightarrow>
          Inr \<lparr>mejor_proceso = Metodo_idxmax s,
               eficiencia_max = serie_max s,
               recomendacion =
                 ''Implementar sistema de recirculacion (Inversion: $1.2M, ROI: 3 anos)'',
               limite_agua = normas_peru Agua,
               uso_diario = por_dia agua_m3 df\<rparr>)"

record emisiones =
  total_co2 :: f64
  proceso_clave :: proceso
  cumplimiento :: marca
  limite_co2 :: string

text \<open>\<open>df.groupby('proceso')['co2_ton'].sum()\<close>\<close>

definition co2_por_proceso :: "fila list \<Rightarrow> serie" where
  "co2_por_proceso df = map (\<lambda>p. (p, suma co2_ton (grupo p df))) (claves df)"

text \<open>\<^verbatim>\<open>'ok' if df['co2_ton'].sum()/30 < 50 else 'x'\<close> (with the two marks)\<close>

definition cumplimiento_co2 :: "fila list \<Rightarrow> marca" where
  "cumplimiento_co2 df = (if fless (por_dia co2_ton df) (Fin 50) then Check else Cruz)"

text \<open>
  The branch of the trigger \<open>emision\<close>; \<open>idxmax()\<close> is called here, and raises
  ValueError on a frame without rows.
\<close>

definition analisis_emisiones :: "fila list \<Rightarrow> pyerr + emisiones" where
  "analisis_emisiones df =
     (case idxmax (co2_por_proceso df) of
        Inl e \<Rightarrow> Inl e
      | Inr p \<Rightarrow>
          Inr \<lparr>total_co2 = suma co2_ton df,
               proceso_clave = p,
               cumplimiento = cumplimiento_co2 df,
               limite_co2 = normas_peru Limite_CO2_Mineria\<rparr>)"

datatype analisis = Sin_analisis | Analisis_hidrico hidrico | Analisis_emisiones emisiones

record respuesta =
  consulta :: string
  analisis :: analisis
  base_legal :: "string list"

text \<open>
  The returned page: the question, the analysis (the empty string when no trigger
  matched) and the three entries of the legal section. The local
  \<open>conocimiento_peru\<close> is never used and is left out.
\<close>

definition pagina :: "string \<Rightarrow> analisis \<Rightarrow> respuesta" where
  "pagina pregunta a =
     \<lparr>consulta = pregunta, analisis = a,
      base_legal = [normas_peru Ley_General_del_Ambiente,
                    normas_peru Limite_CO2_Mineria,
                    normas_peru Multas]\<rparr>"

definition consulta_ia :: "string \<Rightarrow> fila list \<Rightarrow> pyerr + respuesta" where
  "consulta_ia pregunta df =
     (if subcadena ''agua'' (lower pregunta) then
        (case analisis_agua df of
           Inl e \<Rightarrow> Inl e
         | Inr a \<Rightarrow> Inr (pagina pregunta (Analisis_hidrico a)))
      else if subcadena ''emision'' (lower pregunta) then
        (case analisis_emisiones df of
           Inl e \<Rightarrow> Inl e
         | Inr a \<Rightarrow> Inr (pagina pregunta (Analisis_emisiones a)))
      else Inr (pagina pregunta Sin_analisis))"

subsection \<open>The simulation block\<close>

datatype tecnologia = Filtros_CO2 | Recirculacion_Agua | Energia_Solar | Gestion_de_Relaves

text \<open>
  The dictionary \<open>resultados\<close>, whose values are texts:
  \<^verbatim>\<open>"Ahorro Anual": f"S/. {inversion*0.2:,.0f}",  "ROI": f"{plazo} anos"\<close>
  \<open>inversion\<close> and \<open>plazo\<close> are Python integers (the widgets are given integer
  bounds); \<open>0.2\<close> is the double nearest to 2/10. The last entry is the check mark
  followed by \<open>100%\<close>.
\<close>

record resultados =
  reduccion_co2 :: string
  ahorro_anual :: string
  roi :: string
  cumplimiento_legal :: "marca \<times> string"

definition simular :: "int \<Rightarrow> int \<Rightarrow> tecnologia \<Rightarrow> pyerr + resultados" where
  "simular inversion plazo tipo =
     (case float_de_int inversion of
        Inl e \<Rightarrow> Inl e
      | Inr v \<Rightarrow>
          Inr \<lparr>reduccion_co2 = ''15-25%'',
               ahorro_anual = ''S/. '' @ formato_comas_0f (fmul v (redondear (2 / 10))),
               roi = str_int plazo @ '' anos'',
               cumplimiento_legal = (Check, ''100%'')\<rparr>)"

subsection \<open>The report block\<close>

datatype tendencia = Mejorado | Empeorado

datatype nivel = Dentro | Fuera

record informe =
  produccion_total :: f64
  intensidad_hidrica :: f64
  emisiones_por_sol :: f64
  tendencia_energia :: tendencia
  niveles_co2 :: nivel
  agua_por_dia :: f64
  limite_agua_legal :: string

text \<open>
  The interpolated values of the report, in the order of the source. The heading's
  month (the clock) is left out. On a frame without rows the two sums of the water
  intensity are Python's integer 0, and \<open>0/0\<close> raises ZeroDivisionError.
\<close>

definition reporte :: "fila list \<Rightarrow> pyerr + informe" where
  "reporte df =
     (if df = [] then Inl ZeroDivisionError
      else
        Inr \<lparr>produccion_total = suma produccion_ton df,
             intensidad_hidrica = fdiv (suma agua_m3 df) (suma produccion_ton df),
             emisiones_por_sol = fdiv (suma co2_ton df) (suma ingresos_soles df),
             tendencia_energia =
               (if fless (media energia_kwh df) (Fin 100) then Mejorado else Empeorado),
             niveles_co2 =
               (if fless (media co2_ton df) (Fin (3 / 2)) then Dentro else Fuera),
             agua_por_dia = por_dia agua_m3 df,
             limite_agua_legal = normas_peru Agua\<rparr>)"

subsection \<open>The script as a machine over the table\<close>

text \<open>
  Every interaction reruns the script; only the submit of the form writes. An event
  is what the user did (for the form, the numbers typed); \<open>paso\<close> is its effect on
  the table.
\<close>

datatype evento =
    Guardar fecha proceso real real real real
  | Consultar string
  | Simular int int tecnologia
  | Generar_reporte

fun paso :: "evento \<Rightarrow> tabla \<Rightarrow> tabla" where
  "paso (Guardar f p agua energia co2 produccion) t =
     guardar_datos f p (number_input agua) (number_input energia)
       (number_input co2) (number_input produccion) t"
| "paso (Consultar pregunta) t = t"
| "paso (Simular inversion plazo tipo) t = t"
| "paso Generar_reporte t = t"

definition ejecutar :: "evento list \<Rightarrow> tabla \<Rightarrow> tabla" where
  "ejecutar evs t = fold paso evs t"

text \<open>A row whose derived columns are the float products of its captured ones.\<close>

definition derivada :: "fila \<Rightarrow> bool" where
  "derivada r =
     (ingresos_soles r = fmul (produccion_ton r) (Fin 5000) \<and>
      gastos_soles r = fmul (produccion_ton r) (Fin 3500) \<and>
      inversion_ambiental_soles r = fmul (co2_ton r) (Fin 40) \<and>
      residuos_ton r = Fin 0)"

declare bloques.simps [simp del]
declare pairwise_sum.simps [simp del]
declare digitos.simps [simp del]
declare comas.simps [simp del]

section \<open>Properties\<close>

subsection \<open>Rounding of integers\<close>

text \<open>
  An integer from 0 to \<open>2^53 - 1\<close> is a double: rounding leaves it as it is.
\<close>

lemma dos_a_la_neg: "e \<le> 0 \<Longrightarrow> dos_a_la e = 1 / 2 ^ nat (- e)"
  by (simp add: dos_a_la_def)

lemma dos_a_la_pred: "e \<le> 0 \<Longrightarrow> 2 * dos_a_la (e - 1) = dos_a_la e"
proof -
  assume e: "e \<le> 0"
  then have "nat (- (e - 1)) = Suc (nat (- e))" by simp
  with e show ?thesis by (simp add: dos_a_la_neg)
qed

lemma rhe_entero: "rhe (of_int j) = j"
  by (simp add: rhe_def)

lemma escala_entero:
  "escala k (of_int j) e = (m', e') \<Longrightarrow> 0 < j \<Longrightarrow> j < 2 ^ 53 \<Longrightarrow> e \<le> 0 \<Longrightarrow>
   \<exists>j'. m' = of_int j' \<and> of_int j' * dos_a_la e' = of_int j * dos_a_la e"
proof (induction k arbitrary: j e)
  case 0
  then show ?case by auto
next
  case (Suc k)
  from Suc.prems(3) have no: "\<not> (2 ^ 53 \<le> (of_int j :: real))"
    by (metis not_le of_int_less_numeral_power_cancel_iff)
  show ?case
  proof (cases "(of_int j :: real) < 2 ^ 52 \<and> - 1074 < e")
    case True
    then have j52: "j < 2 ^ 52" by (metis of_int_less_numeral_power_cancel_iff)
    from True no Suc.prems(1) have "escala k (of_int (2 * j)) (e - 1) = (m', e')"
      by (simp add: mult.commute)
    moreover have "0 < 2 * j" using Suc.prems(2) by simp
    moreover have "2 * j < 2 ^ 53" using j52 by simp
    moreover have "e - 1 \<le> 0" using Suc.prems(4) by simp
    ultimately obtain j' where
      j': "m' = of_int j'" "of_int j' * dos_a_la e' = of_int (2 * j) * dos_a_la (e - 1)"
      using Suc.IH by blast
    have "of_int (2 * j) * dos_a_la (e - 1) = of_int j * (2 * dos_a_la (e - 1))" by simp
    also have "\<dots> = of_int j * dos_a_la e" using Suc.prems(4) by (simp add: dos_a_la_pred)
    finally show ?thesis using j' by auto
  next
    case False
    with no Suc.prems(1) have "m' = of_int j" "e' = e" by auto
    then show ?thesis by auto
  qed
qed

lemma redondear_entero:
  assumes "0 \<le> n" and "n < 2 ^ 53"
  shows "redondear (of_int n) = Fin (of_int n)"
proof (cases "n = 0")
  case True
  then show ?thesis by (simp add: redondear_def)
next
  case False
  with assms have pos: "0 < n" by simp
  obtain m' e' where esc: "escala 2200 (of_int n) 0 = (m', e')" by (cases "escala 2200 (of_int n :: real) 0")
  from escala_entero [OF esc pos assms(2)] obtain j' where
    j': "m' = of_int j'" "of_int j' * dos_a_la e' = of_int n * dos_a_la 0" by auto
  have r: "of_int (rhe m') * dos_a_la e' = (of_int n :: real)"
    using j' by (simp add: rhe_entero dos_a_la_def)
  have "(of_int n :: real) < 2 ^ 53" using assms(2) by (metis of_int_less_numeral_power_cancel_iff)
  also have "(2 ^ 53 :: real) \<le> 2 ^ 1024" by (rule power_increasing) auto
  finally have "\<not> (2 ^ 1024 \<le> (of_int n :: real))" by simp
  with esc r have "redondear_pos (of_int n) = Fin (of_int n)"
    by (simp add: redondear_pos_def Let_def)
  with pos show ?thesis by (simp add: redondear_def)
qed

lemma float_de_int_exacto:
  "0 \<le> n \<Longrightarrow> n < 2 ^ 53 \<Longrightarrow> float_de_int n = Inr (Fin (of_int n))"
  by (simp add: float_de_int_def redondear_entero)

subsection \<open>Sorting, grouping, the table and substrings\<close>

lemma set_insertar: "set (insertar x ys) = insert x (set ys)"
  by (induction ys) auto

lemma set_sort_values_desc: "set (sort_values_desc s) = set s"
  unfolding sort_values_desc_def by (induction s) (auto simp: set_insertar)

lemma length_insertar: "length (insertar x ys) = Suc (length ys)"
  by (induction ys) auto

lemma length_sort_values_desc: "length (sort_values_desc s) = length s"
  unfolding sort_values_desc_def by (induction s) (auto simp: length_insertar)

lemma distinct_insertar:
  "distinct (map fst (insertar x ys)) = (fst x \<notin> fst ` set ys \<and> distinct (map fst ys))"
  by (induction ys) (auto simp: set_insertar)

lemma distinct_sort_values_desc:
  "distinct (map fst (sort_values_desc s)) = distinct (map fst s)"
  unfolding sort_values_desc_def
  by (induction s) (auto simp: distinct_insertar set_sort_values_desc [unfolded sort_values_desc_def])

lemma antes_trans: "\<not> antes b a \<Longrightarrow> \<not> antes c b \<Longrightarrow> \<not> antes c a"
  by (cases a; cases b; cases c) auto

lemma antes_total: "antes a b \<Longrightarrow> \<not> antes b a"
  by (cases a; cases b) auto

lemma sorted_insertar:
  "sorted_wrt (\<lambda>a b. \<not> antes (snd b) (snd a)) ys \<Longrightarrow>
   sorted_wrt (\<lambda>a b. \<not> antes (snd b) (snd a)) (insertar x ys)"
proof (induction ys)
  case Nil
  then show ?case by simp
next
  case (Cons y ys)
  show ?case
  proof (cases "antes (snd y) (snd x)")
    case True
    with Cons show ?thesis by (auto simp: set_insertar antes_total)
  next
    case False
    with Cons show ?thesis using antes_trans by fastforce
  qed
qed

lemma sorted_sort_values_desc:
  "sorted_wrt (\<lambda>a b. \<not> antes (snd b) (snd a)) (sort_values_desc s)"
  unfolding sort_values_desc_def by (induction s) (auto intro: sorted_insertar)

lemma todos_los_procesos: "p \<in> set orden_claves"
  by (cases p) (simp_all add: orden_claves_def)

lemma set_claves: "set (claves df) = proceso ` set df"
  by (auto simp: claves_def todos_los_procesos)

lemma distinct_claves: "distinct (claves df)"
  by (simp add: claves_def orden_claves_def)

lemma claves_no_vacio: "df \<noteq> [] \<Longrightarrow> claves df \<noteq> []"
  using set_claves [of df] by (cases df) auto

lemma subcadena_iff: "subcadena p s \<longleftrightarrow> (\<exists>a b. s = a @ p @ b)"
proof (induction s)
  case Nil
  then show ?case by auto
next
  case (Cons c cs)
  show ?case
  proof
    assume "subcadena p (c # cs)"
    then consider "take (length p) (c # cs) = p" | "subcadena p cs" by auto
    then show "\<exists>a b. c # cs = a @ p @ b"
    proof cases
      case 1
      then have "c # cs = [] @ p @ drop (length p) (c # cs)"
        by (metis append_Nil append_take_drop_id)
      then show ?thesis by blast
    next
      case 2
      with Cons obtain a b where "cs = a @ p @ b" by blast
      then have "c # cs = (c # a) @ p @ b" by simp
      then show ?thesis by blast
    qed
  next
    assume "\<exists>a b. c # cs = a @ p @ b"
    then obtain a b where ab: "c # cs = a @ p @ b" by blast
    show "subcadena p (c # cs)"
    proof (cases a)
      case Nil
      with ab have "take (length p) (c # cs) = p" by simp
      then show ?thesis by simp
    next
      case (Cons a0 as)
      with ab have "cs = as @ p @ b" by simp
      with Cons.IH show ?thesis by auto
    qed
  qed
qed

lemma ejecutar_extiende: "\<exists>s. ejecutar evs t = t @ s"
proof (induction evs arbitrary: t)
  case Nil
  then show ?case by (simp add: ejecutar_def)
next
  case (Cons e evs)
  obtain r where r: "paso e t = t @ r"
    by (cases e) (auto simp: guardar_datos_def)
  from Cons [of "t @ r"] obtain s where "ejecutar evs (t @ r) = (t @ r) @ s" by blast
  with r have "ejecutar (e # evs) t = t @ (r @ s)" by (simp add: ejecutar_def)
  then show ?case by blast
qed

lemma paso_derivada: "list_all derivada t \<Longrightarrow> list_all derivada (paso e t)"
  by (cases e) (auto simp: guardar_datos_def derivada_def)

lemma ejecutar_derivada: "list_all derivada t \<Longrightarrow> list_all derivada (ejecutar evs t)"
  unfolding ejecutar_def by (induction evs arbitrary: t) (auto simp: paso_derivada)


lemma lower_char_a: "lower_char c = CHR ''a'' \<longleftrightarrow> c \<in> {CHR ''a'', CHR ''A''}"
  by (auto simp: lower_char_def split: if_splits)

lemma lower_char_g: "lower_char c = CHR ''g'' \<longleftrightarrow> c \<in> {CHR ''g'', CHR ''G''}"
  by (auto simp: lower_char_def split: if_splits)

lemma lower_char_u: "lower_char c = CHR ''u'' \<longleftrightarrow> c \<in> {CHR ''u'', CHR ''U''}"
  by (auto simp: lower_char_def split: if_splits)

lemma lower_char_e: "lower_char c = CHR ''e'' \<longleftrightarrow> c \<in> {CHR ''e'', CHR ''E''}"
  by (auto simp: lower_char_def split: if_splits)

lemma lower_char_m: "lower_char c = CHR ''m'' \<longleftrightarrow> c \<in> {CHR ''m'', CHR ''M''}"
  by (auto simp: lower_char_def split: if_splits)

lemma lower_char_i: "lower_char c = CHR ''i'' \<longleftrightarrow> c \<in> {CHR ''i'', CHR ''I''}"
  by (auto simp: lower_char_def split: if_splits)

lemma lower_char_s: "lower_char c = CHR ''s'' \<longleftrightarrow> c \<in> {CHR ''s'', CHR ''S''}"
  by (auto simp: lower_char_def split: if_splits)

lemma lower_char_o: "lower_char c = CHR ''o'' \<longleftrightarrow> c \<in> {CHR ''o'', CHR ''O''}"
  by (auto simp: lower_char_def split: if_splits)

lemma lower_char_n: "lower_char c = CHR ''n'' \<longleftrightarrow> c \<in> {CHR ''n'', CHR ''N''}"
  by (auto simp: lower_char_def split: if_splits)

lemma ventana_map:
  "(\<exists>a b. map f q = a @ w @ b) \<longleftrightarrow> (\<exists>a v b. q = a @ v @ b \<and> map f v = w)"
proof
  assume "\<exists>a b. map f q = a @ w @ b"
  then obtain a b where "map f q = a @ w @ b" by blast
  then obtain qa qr where q1: "q = qa @ qr" "map f qr = w @ b"
    by (metis map_eq_append_conv)
  then obtain v qb where "qr = v @ qb" "map f v = w"
    by (metis map_eq_append_conv)
  with q1 show "\<exists>a v b. q = a @ v @ b \<and> map f v = w" by blast
next
  assume "\<exists>a v b. q = a @ v @ b \<and> map f v = w"
  then obtain a v b where "q = a @ v @ b" "map f v = w" by blast
  then have "map f q = map f a @ w @ map f b" by simp
  then show "\<exists>a b. map f q = a @ w @ b" by blast
qed

lemma contiene_agua:
  "subcadena ''agua'' (lower pregunta) \<longleftrightarrow>
     (\<exists>a b c1 c2 c3 c4. pregunta = a @ [c1, c2, c3, c4] @ b \<and>
        c1 \<in> {CHR ''a'', CHR ''A''} \<and> c2 \<in> {CHR ''g'', CHR ''G''} \<and>
        c3 \<in> {CHR ''u'', CHR ''U''} \<and> c4 \<in> {CHR ''a'', CHR ''A''})"
proof -
  have v: "map lower_char v = ''agua'' \<longleftrightarrow>
      (\<exists>c1 c2 c3 c4. v = [c1, c2, c3, c4] \<and>
        c1 \<in> {CHR ''a'', CHR ''A''} \<and> c2 \<in> {CHR ''g'', CHR ''G''} \<and>
        c3 \<in> {CHR ''u'', CHR ''U''} \<and> c4 \<in> {CHR ''a'', CHR ''A''})" for v
    unfolding lower_char_a [symmetric] lower_char_g [symmetric] lower_char_u [symmetric]
    by (auto simp: map_eq_Cons_conv)
  show ?thesis
    unfolding subcadena_iff lower_def ventana_map v by blast
qed

lemma contiene_emision:
  "subcadena ''emision'' (lower pregunta) \<longleftrightarrow>
     (\<exists>a b c1 c2 c3 c4 c5 c6 c7. pregunta = a @ [c1, c2, c3, c4, c5, c6, c7] @ b \<and>
        c1 \<in> {CHR ''e'', CHR ''E''} \<and> c2 \<in> {CHR ''m'', CHR ''M''} \<and>
        c3 \<in> {CHR ''i'', CHR ''I''} \<and> c4 \<in> {CHR ''s'', CHR ''S''} \<and>
        c5 \<in> {CHR ''i'', CHR ''I''} \<and> c6 \<in> {CHR ''o'', CHR ''O''} \<and>
        c7 \<in> {CHR ''n'', CHR ''N''})"
proof -
  have v: "map lower_char v = ''emision'' \<longleftrightarrow>
      (\<exists>c1 c2 c3 c4 c5 c6 c7. v = [c1, c2, c3, c4, c5, c6, c7] \<and>
        c1 \<in> {CHR ''e'', CHR ''E''} \<and> c2 \<in> {CHR ''m'', CHR ''M''} \<and>
        c3 \<in> {CHR ''i'', CHR ''I''} \<and> c4 \<in> {CHR ''s'', CHR ''S''} \<and>
        c5 \<in> {CHR ''i'', CHR ''I''} \<and> c6 \<in> {CHR ''o'', CHR ''O''} \<and>
        c7 \<in> {CHR ''n'', CHR ''N''})" for v
    unfolding lower_char_e [symmetric] lower_char_m [symmetric] lower_char_i [symmetric]
      lower_char_s [symmetric] lower_char_o [symmetric] lower_char_n [symmetric]
    by (auto simp: map_eq_Cons_conv)
  show ?thesis
    unfolding subcadena_iff lower_def ventana_map v by blast
qed

subsection \<open>Evaluation on given rows\<close>

lemmas evalr = redondear_def redondear_pos_def rhe_def dos_a_la_def eval_nat_numeral

lemma redondear_cero: "redondear 0 = Fin 0"
  by (simp add: redondear_def)

lemma redondear_uno: "redondear 1 = Fin 1"
  using redondear_entero [of 1] by simp

lemma redondear_numeral:
  "(numeral k :: int) < 2 ^ 53 \<Longrightarrow> redondear (numeral k) = Fin (numeral k)"
  using redondear_entero [of "numeral k"] by simp

lemma redondear_un_medio: "redondear (1 / 2) = Fin (1 / 2)"
  by (simp add: evalr)

lemma redondear_6_5: "redondear (6 / 5) = Fin (5404319552844595 / 4503599627370496)"
  by (simp add: evalr)

lemma pairwise_sum_corto: "length xs < 8 \<Longrightarrow> pairwise_sum xs = foldl fadd (Fin 0) xs"
  by (simp add: pairwise_sum.simps)

lemmas evalf = redondear_cero redondear_uno redondear_numeral redondear_un_medio
  redondear_6_5 pairwise_sum_corto suma_def media_def por_dia_def guardar_datos_def
  siguiente_id_def claves_def orden_claves_def grupo_def sort_values_desc_def

lemma fdiv_cero:
  "fdiv v (Fin 0) =
     (if fless (Fin 0) v then PInf else if fless v (Fin 0) then NInf else NaN)"
  by (cases v) auto

lemma idxmax_no_vacio: "s \<noteq> [] \<Longrightarrow> \<exists>p. idxmax s = Inr p"
  by (cases s) auto

lemma eficiencia_tres_procesos:
  "eficiencia
     (guardar_datos (2025, 1, 3) Transporte (Fin 10) (Fin 0) (Fin 0) (Fin 5)
       (guardar_datos (2025, 1, 2) Procesamiento (Fin 50) (Fin 0) (Fin 0) (Fin 60)
         (guardar_datos (2025, 1, 1) Extraccion (Fin 100) (Fin 0) (Fin 0) (Fin 50) [])))
   = Inr [(Procesamiento, redondear (6 / 5)), (Extraccion, Fin (1 / 2)),
          (Transporte, Fin (1 / 2))]"
  by (simp add: eficiencia_def evalf)

lemma redondear_un_quinto: "redondear (1 / 5) = Fin (3602879701896397 / 18014398509481984)"
  by (simp add: evalr)

lemma consulta_ia_agua_primero:
  "consulta_ia ''Emisiones y AGUA'' df =
     map_sum id (\<lambda>h. pagina ''Emisiones y AGUA'' (Analisis_hidrico h)) (analisis_agua df)"
  by (simp add: consulta_ia_def lower_def lower_char_def split: sum.splits)

lemma consulta_ia_sin_disparador:
  "consulta_ia ''Hola'' df = Inr (pagina ''Hola'' Sin_analisis)"
  by (simp add: consulta_ia_def lower_def lower_char_def)

text \<open>
  The number typed as 0.07 is stored as the double nearest to it, and its product
  with 5000 is the double 350.00000000000006.
\<close>

lemma producto_no_exacto:
  "number_input (7 / 100) = Fin (1261007895663739 / 18014398509481984) \<and>
   fmul (number_input (7 / 100)) (Fin 5000) = Fin (6157265115545601 / 17592186044416)"
  by (simp add: number_input_def evalr)

subsection \<open>C1: the best process of the water answer\<close>

text \<open>
  C1. The claim: the best process reported in the water answer is the group value of
  the first entry of the ranking. The source interpolates \<open>eficiencia.idxmax\<close>, the
  method itself, where the emissions branch calls \<open>idxmax()\<close>. On two rows whose
  ranking starts with Procesamiento, the value reported is the bound method and not
  the label Procesamiento.
\<close>

theorem C1_mejor_proceso_no_invocado:
  "eficiencia
     (guardar_datos (2025, 1, 2) Procesamiento (Fin 50) (Fin 0) (Fin 0) (Fin 60)
       (guardar_datos (2025, 1, 1) Extraccion (Fin 100) (Fin 0) (Fin 0) (Fin 50) []))
     = Inr [(Procesamiento, redondear (6 / 5)), (Extraccion, Fin (1 / 2))] \<and>
   map_sum id mejor_proceso (analisis_agua
     (guardar_datos (2025, 1, 2) Procesamiento (Fin 50) (Fin 0) (Fin 0) (Fin 60)
       (guardar_datos (2025, 1, 1) Extraccion (Fin 100) (Fin 0) (Fin 0) (Fin 50) [])))
     = Inr (Metodo_idxmax [(Procesamiento, redondear (6 / 5)), (Extraccion, Fin (1 / 2))]) \<and>
   map_sum id mejor_proceso (analisis_agua
     (guardar_datos (2025, 1, 2) Procesamiento (Fin 50) (Fin 0) (Fin 0) (Fin 60)
       (guardar_datos (2025, 1, 1) Extraccion (Fin 100) (Fin 0) (Fin 0) (Fin 50) [])))
     \<noteq> Inr (Etiqueta Procesamiento)"
  by (simp add: analisis_agua_def eficiencia_def evalf)

subsection \<open>C2: groups with a zero denominator\<close>

text \<open>
  C2, as stated, fails: one row of Relaves with production 5 and water 0 gives a
  ranking whose only entry is that group, with an infinite ratio.
\<close>

theorem C2_denominador_cero_incluido:
  "eficiencia (guardar_datos (2025, 1, 1) Relaves (Fin 0) (Fin 0) (Fin 0) (Fin 5) [])
     = Inr [(Relaves, PInf)] \<and>
   suma agua_m3
     (grupo Relaves (guardar_datos (2025, 1, 1) Relaves (Fin 0) (Fin 0) (Fin 0) (Fin 5) []))
     = Fin 0"
  by (simp add: eficiencia_def evalf)

text \<open>
  C2, amended. For every frame with rows the ranking is produced; its entries are
  exactly the pairs of a process that occurs in the records and the float quotient
  of the production sum by the water sum of that process, one entry for each such
  process and none excluded, sorted descending by ratio with NaN last. A group
  whose water sum is 0 is in the ranking with the ratio plus infinity, minus
  infinity or NaN, as its production sum is positive, negative or neither.
\<close>

theorem C2_eficiencia_no_excluye:
  assumes "df \<noteq> []"
  shows "\<exists>s. eficiencia df = Inr s \<and>
           set s = (\<lambda>p. (p, fdiv (suma produccion_ton (grupo p df))
                                  (suma agua_m3 (grupo p df)))) ` proceso ` set df \<and>
           distinct (map fst s) \<and>
           sorted_wrt (\<lambda>a b. \<not> antes (snd b) (snd a)) s \<and>
           (\<forall>p \<in> proceso ` set df. suma agua_m3 (grupo p df) = Fin 0 \<longrightarrow>
              (p, if fless (Fin 0) (suma produccion_ton (grupo p df)) then PInf
                  else if fless (suma produccion_ton (grupo p df)) (Fin 0) then NInf
                  else NaN) \<in> set s)"
proof -
  let ?r = "\<lambda>p. (p, fdiv (suma produccion_ton (grupo p df)) (suma agua_m3 (grupo p df)))"
  let ?s = "sort_values_desc (map ?r (claves df))"
  from assms have e: "eficiencia df = Inr ?s" by (simp add: eficiencia_def)
  have uno: "set ?s = ?r ` proceso ` set df"
    by (simp add: set_sort_values_desc set_claves)
  have dos: "distinct (map fst ?s)"
    by (simp add: distinct_sort_values_desc comp_def distinct_claves)
  have tres: "sorted_wrt (\<lambda>a b. \<not> antes (snd b) (snd a)) ?s"
    by (rule sorted_sort_values_desc)
  have cuatro: "\<forall>p \<in> proceso ` set df. suma agua_m3 (grupo p df) = Fin 0 \<longrightarrow>
              (p, if fless (Fin 0) (suma produccion_ton (grupo p df)) then PInf
                  else if fless (suma produccion_ton (grupo p df)) (Fin 0) then NInf
                  else NaN) \<in> set ?s"
  proof (intro ballI impI)
    fix p assume p: "p \<in> proceso ` set df" and z: "suma agua_m3 (grupo p df) = Fin 0"
    from p have "?r p \<in> set ?s" unfolding uno by blast
    then show "(p, if fless (Fin 0) (suma produccion_ton (grupo p df)) then PInf
                  else if fless (suma produccion_ton (grupo p df)) (Fin 0) then NInf
                  else NaN) \<in> set ?s"
      unfolding z fdiv_cero .
  qed
  from e uno dos tres cuatro show ?thesis by blast
qed

text \<open>
  Witness of C2: a Relaves row with water 0 and production 0 beside an Extraccion row.
\<close>

theorem C2_eficiencia_no_excluye_witness:
  "\<exists>s. eficiencia (guardar_datos (2025, 1, 2) Extraccion (Fin 4) (Fin 0) (Fin 0) (Fin 2)
          (guardar_datos (2025, 1, 1) Relaves (Fin 0) (Fin 0) (Fin 0) (Fin 0) [])) = Inr s \<and>
       (Relaves, NaN) \<in> set s \<and> (Extraccion, Fin (1 / 2)) \<in> set s \<and> length s = 2"
proof -
  let ?df = "guardar_datos (2025, 1, 2) Extraccion (Fin 4) (Fin 0) (Fin 0) (Fin 2)
          (guardar_datos (2025, 1, 1) Relaves (Fin 0) (Fin 0) (Fin 0) (Fin 0) [])"
  have h: "?df \<noteq> []" by (simp add: guardar_datos_def)
  from C2_eficiencia_no_excluye [OF h] obtain s where s: "eficiencia ?df = Inr s" by blast
  have "eficiencia ?df = Inr [(Extraccion, Fin (1 / 2)), (Relaves, NaN)]"
    by (simp add: eficiencia_def evalf)
  with s show ?thesis by auto
qed

subsection \<open>C3: the empty frame\<close>

text \<open>
  C3, as stated, fails: on the table without rows the handlers fail, but not with
  an error of insufficient data and not at the mean or the daily rate. The report
  raises ZeroDivisionError at the water intensity, the water answer TypeError at the
  ranking, the emissions answer ValueError at \<open>idxmax()\<close>.
\<close>

theorem C3_vacio_falla_antes:
  "reporte [] = Inl ZeroDivisionError \<and>
   consulta_ia ''uso de agua'' [] = Inl TypeError \<and>
   consulta_ia ''emisiones'' [] = Inl ValueError"
  by (simp add: reporte_def consulta_ia_def analisis_agua_def eficiencia_def
      analisis_emisiones_def co2_por_proceso_def claves_def orden_claves_def
      lower_def lower_char_def)

text \<open>
  C3, amended. For the empty record collection no mean and no daily rate is
  returned, hence no 0, NaN or other default: every handler that contains these
  computations fails before it reaches them, the report with ZeroDivisionError, the
  water analysis with TypeError and the emissions analysis with ValueError,
  whatever the question that selects them.
\<close>

theorem C3_vacio_sin_valor:
  "reporte [] = Inl ZeroDivisionError \<and>
   analisis_agua [] = Inl TypeError \<and>
   analisis_emisiones [] = Inl ValueError \<and>
   consulta_ia pregunta [] =
     (if subcadena ''agua'' (lower pregunta) then Inl TypeError
      else if subcadena ''emision'' (lower pregunta) then Inl ValueError
      else Inr (pagina pregunta Sin_analisis))"
  by (simp add: reporte_def consulta_ia_def analisis_agua_def eficiencia_def
      analisis_emisiones_def co2_por_proceso_def claves_def orden_claves_def)

subsection \<open>C4: the compliance verdicts\<close>

text \<open>
  C4, as stated, fails at the boundary: with 1500 tons of CO2 in the month the daily
  rate is exactly the limit 50 and the emissions answer carries the cross.
\<close>

theorem C4_en_el_limite_no_cumple:
  "por_dia co2_ton
     (guardar_datos (2025, 1, 1) Extraccion (Fin 0) (Fin 0) (Fin 1500) (Fin 0) []) = Fin 50 \<and>
   analisis_emisiones
     (guardar_datos (2025, 1, 1) Extraccion (Fin 0) (Fin 0) (Fin 1500) (Fin 0) []) =
     Inr \<lparr>total_co2 = Fin 1500, proceso_clave = Extraccion, cumplimiento = Cruz,
          limite_co2 = normas_peru Limite_CO2_Mineria\<rparr>"
  by (simp add: analisis_emisiones_def cumplimiento_co2_def co2_por_proceso_def evalf)

text \<open>
  C4, amended. The comparison is strict, on the float the code computes. For every
  frame with rows, the emissions answer carries the check mark exactly when the
  daily CO2 rate (the float sum divided by 30) is below 50, and the cross otherwise;
  the report says "within" exactly when the float CO2 mean is below 1.5, and
  "outside" otherwise. At equality the verdict is the failing one.
\<close>

theorem C4_cumplimiento_estricto:
  assumes "df \<noteq> []"
  shows "(\<exists>a. analisis_emisiones df = Inr a \<and>
              (cumplimiento a = Check \<longleftrightarrow> fless (por_dia co2_ton df) (Fin 50)) \<and>
              (cumplimiento a = Cruz \<longleftrightarrow> \<not> fless (por_dia co2_ton df) (Fin 50)) \<and>
              (por_dia co2_ton df = Fin 50 \<longrightarrow> cumplimiento a = Cruz)) \<and>
         (\<exists>r. reporte df = Inr r \<and>
              (niveles_co2 r = Dentro \<longleftrightarrow> fless (media co2_ton df) (Fin (3 / 2))) \<and>
              (niveles_co2 r = Fuera \<longleftrightarrow> \<not> fless (media co2_ton df) (Fin (3 / 2))) \<and>
              (media co2_ton df = Fin (3 / 2) \<longrightarrow> niveles_co2 r = Fuera))"
proof -
  from assms have "co2_por_proceso df \<noteq> []"
    by (simp add: co2_por_proceso_def claves_no_vacio)
  then obtain p where "idxmax (co2_por_proceso df) = Inr p"
    using idxmax_no_vacio by blast
  then have "\<exists>a. analisis_emisiones df = Inr a \<and>
              (cumplimiento a = Check \<longleftrightarrow> fless (por_dia co2_ton df) (Fin 50)) \<and>
              (cumplimiento a = Cruz \<longleftrightarrow> \<not> fless (por_dia co2_ton df) (Fin 50)) \<and>
              (por_dia co2_ton df = Fin 50 \<longrightarrow> cumplimiento a = Cruz)"
    by (auto simp: analisis_emisiones_def cumplimiento_co2_def)
  moreover from assms have
    "\<exists>r. reporte df = Inr r \<and>
              (niveles_co2 r = Dentro \<longleftrightarrow> fless (media co2_ton df) (Fin (3 / 2))) \<and>
              (niveles_co2 r = Fuera \<longleftrightarrow> \<not> fless (media co2_ton df) (Fin (3 / 2))) \<and>
              (media co2_ton df = Fin (3 / 2) \<longrightarrow> niveles_co2 r = Fuera)"
    by (auto simp: reporte_def)
  ultimately show ?thesis by blast
qed

text \<open>
  Witness of C4: the numbers 0.2 and 1499.8 typed as CO2. Their float sum is 1500,
  the daily rate 50 and the mean 750: the cross, and outside.
\<close>

theorem C4_cumplimiento_estricto_witness:
  "(\<exists>a. analisis_emisiones
          (ejecutar [Guardar (2025, 1, 1) Extraccion 0 0 (2 / 10) 0,
                     Guardar (2025, 1, 2) Extraccion 0 0 (14998 / 10) 0] []) = Inr a \<and>
        cumplimiento a = Cruz) \<and>
   (\<exists>r. reporte
          (ejecutar [Guardar (2025, 1, 1) Extraccion 0 0 (2 / 10) 0,
                     Guardar (2025, 1, 2) Extraccion 0 0 (14998 / 10) 0] []) = Inr r \<and>
        niveles_co2 r = Fuera)"
proof -
  let ?df = "ejecutar [Guardar (2025, 1, 1) Extraccion 0 0 (2 / 10) 0,
                     Guardar (2025, 1, 2) Extraccion 0 0 (14998 / 10) 0] []"
  have h: "?df \<noteq> []" by (simp add: ejecutar_def guardar_datos_def)
  have c1: "redondear (1 / 5) = Fin (3602879701896397 / 18014398509481984)"
    by (simp add: evalr)
  have c2: "redondear (7499 / 5) = Fin (6596190157353779 / 4398046511104)"
    by (simp add: evalr)
  have s: "suma co2_ton ?df = Fin 1500"
    by (simp add: ejecutar_def guardar_datos_def suma_def pairwise_sum_corto
        number_input_def redondear_cero c1 c2 evalr)
  have p: "por_dia co2_ton ?df = Fin 50"
    unfolding por_dia_def s by (simp add: redondear_numeral)
  have m: "media co2_ton ?df = Fin 750"
    unfolding media_def s
    by (simp add: ejecutar_def guardar_datos_def redondear_numeral
        number_input_def redondear_cero c1 c2)
  show ?thesis using C4_cumplimiento_estricto [OF h] unfolding p m by auto
qed

subsection \<open>C5: the choice of the analysis\<close>

text \<open>
  C5. The branch is chosen by the letters of the question, whatever their case, the
  trigger \<open>agua\<close> before the trigger \<open>emision\<close>: a question that contains the four
  letters a, g, u, a in sequence, each in upper or lower case, gets the page with the
  water analysis (or the error of that analysis), even when it contains
  \<open>emision\<close> too; one that contains only the seven letters of \<open>emision\<close> gets the
  page with the emissions analysis; any other question gets the page with the
  question, no analysis and the fixed legal section.
\<close>

theorem C5_seleccion_de_intencion:
  "consulta_ia pregunta df =
     (if \<exists>a b c1 c2 c3 c4. pregunta = a @ [c1, c2, c3, c4] @ b \<and>
           c1 \<in> {CHR ''a'', CHR ''A''} \<and> c2 \<in> {CHR ''g'', CHR ''G''} \<and>
           c3 \<in> {CHR ''u'', CHR ''U''} \<and> c4 \<in> {CHR ''a'', CHR ''A''}
      then
        map_sum id
          (\<lambda>h. \<lparr>consulta = pregunta, analisis = Analisis_hidrico h,
                base_legal = [''Ley N 28611'', ''50 ton/dia (DS N 003-2014-MINAM)'',
                              ''Hasta 10,000 UIT por incumplimiento'']\<rparr>)
          (analisis_agua df)
      else if \<exists>a b c1 c2 c3 c4 c5 c6 c7. pregunta = a @ [c1, c2, c3, c4, c5, c6, c7] @ b \<and>
           c1 \<in> {CHR ''e'', CHR ''E''} \<and> c2 \<in> {CHR ''m'', CHR ''M''} \<and>
           c3 \<in> {CHR ''i'', CHR ''I''} \<and> c4 \<in> {CHR ''s'', CHR ''S''} \<and>
           c5 \<in> {CHR ''i'', CHR ''I''} \<and> c6 \<in> {CHR ''o'', CHR ''O''} \<and>
           c7 \<in> {CHR ''n'', CHR ''N''}
      then
        map_sum id
          (\<lambda>e. \<lparr>consulta = pregunta, analisis = Analisis_emisiones e,
                base_legal = [''Ley N 28611'', ''50 ton/dia (DS N 003-2014-MINAM)'',
                              ''Hasta 10,000 UIT por incumplimiento'']\<rparr>)
          (analisis_emisiones df)
      else
        Inr \<lparr>consulta = pregunta, analisis = Sin_analisis,
             base_legal = [''Ley N 28611'', ''50 ton/dia (DS N 003-2014-MINAM)'',
                           ''Hasta 10,000 UIT por incumplimiento'']\<rparr>)"
  unfolding contiene_agua [symmetric] contiene_emision [symmetric]
  by (simp add: consulta_ia_def pagina_def split: sum.splits)

subsection \<open>C6: the water intensity when nothing was produced\<close>

text \<open>
  C6, as stated, fails: one row with 10 m3 of water and no production gives a report
  whose water intensity is plus infinity.
\<close>

theorem C6_produccion_cero_sin_error:
  "map_sum id intensidad_hidrica
     (reporte (guardar_datos (2025, 1, 1) Transporte (Fin 10) (Fin 0) (Fin 0) (Fin 0) []))
   = Inr PInf"
  by (simp add: reporte_def evalf)

text \<open>
  C6, amended. For every frame with rows whose production total is 0 the report is
  produced: its water intensity is plus infinity when the water total is positive,
  NaN when the water total is 0 (and minus infinity for a negative water total).
\<close>

theorem C6_intensidad_con_produccion_cero:
  assumes "df \<noteq> []" and "suma produccion_ton df = Fin 0"
  shows "map_sum id intensidad_hidrica (reporte df) =
           Inr (if fless (Fin 0) (suma agua_m3 df) then PInf
                else if fless (suma agua_m3 df) (Fin 0) then NInf else NaN)"
  using assms by (simp add: reporte_def fdiv_cero)

text \<open>
  Witness of C6: one row without water and without production.
\<close>

theorem C6_intensidad_con_produccion_cero_witness:
  "map_sum id intensidad_hidrica
     (reporte (guardar_datos (2025, 1, 1) Relaves (Fin 0) (Fin 0) (Fin 0) (Fin 0) []))
   = Inr NaN"
proof -
  let ?df = "guardar_datos (2025, 1, 1) Relaves (Fin 0) (Fin 0) (Fin 0) (Fin 0) []"
  have h1: "?df \<noteq> []" by (simp add: guardar_datos_def)
  have h2: "suma produccion_ton ?df = Fin 0" by (simp add: evalf)
  have h3: "suma agua_m3 ?df = Fin 0" by (simp add: evalf)
  show ?thesis using C6_intensidad_con_produccion_cero [OF h1 h2] h3 by simp
qed

subsection \<open>C7: the inserted row\<close>

text \<open>
  C7. The form appends one row whose revenue is the float product of production and
  5000, whose cost is the float product of production and 3500, whose environmental
  investment is the float product of CO2 and 40, and whose waste is 0. No event
  changes a row that is in the table: after any sequence of events the former table
  is a prefix of the new one, and every row of a table built from the empty one has
  its derived columns as the form set them.
\<close>

theorem C7_fila_guardada:
  "guardar_datos f p agua energia co2 produccion t =
     t @ [\<lparr>rowid = siguiente_id t, fecha = f, proceso = p, material = ''Cobre'',
           agua_m3 = agua, energia_kwh = energia, co2_ton = co2, residuos_ton = Fin 0,
           produccion_ton = produccion,
           ingresos_soles = fmul produccion (Fin 5000),
           gastos_soles = fmul produccion (Fin 3500),
           inversion_ambiental_soles = fmul co2 (Fin 40)\<rparr>] \<and>
   derivada (last (guardar_datos f p agua energia co2 produccion t)) \<and>
   take (length t) (ejecutar evs t) = t \<and>
   list_all derivada (ejecutar evs [])"
proof -
  obtain s where "ejecutar evs t = t @ s" using ejecutar_extiende by blast
  then have "take (length t) (ejecutar evs t) = t" by simp
  moreover have "list_all derivada (ejecutar evs [])" by (simp add: ejecutar_derivada)
  moreover have "derivada (last (guardar_datos f p agua energia co2 produccion t))"
    by (simp add: guardar_datos_def derivada_def)
  ultimately show ?thesis by (simp add: guardar_datos_def)
qed

subsection \<open>C8 and C10: the simulation\<close>

text \<open>
  C8, as stated, fails: the dictionary holds texts. For an investment of 7 the
  float product with 0.2 is 1.4000000000000001 and the entry of the annual savings
  is the text \<open>S/. 1\<close>, not 1.4.
\<close>

theorem C8_ahorro_redondeado:
  "fmul (Fin 7) (redondear (2 / 10)) = Fin (6305039478318695 / 4503599627370496) \<and>
   simular 7 5 Energia_Solar =
     Inr \<lparr>reduccion_co2 = ''15-25%'', ahorro_anual = ''S/. 1'', roi = ''5 anos'',
          cumplimiento_legal = (Check, ''100%'')\<rparr>"
proof -
  have f: "float_de_int 7 = Inr (Fin 7)"
    using float_de_int_exacto [of 7] by simp
  have m: "fmul (Fin 7) (redondear (1 / 5)) = Fin (6305039478318695 / 4503599627370496)"
    by (simp add: redondear_un_quinto) (simp add: evalr)
  have t: "rhe (6305039478318695 / 4503599627370496) = 1"
    by (simp add: rhe_def Let_def)
  have c: "comas (digitos 1) = ''1''"
    by (simp add: digitos.simps comas.simps)
  have r: "str_int 5 = ''5''" by (simp add: str_int_def digitos.simps)
  show ?thesis by (simp add: simular_def f m t c r)
qed

text \<open>
  C8, amended. For every investment from 0 to \<open>2^53 - 1\<close> (the range of the widget)
  and every term, the simulation succeeds and holds four texts: the reduction band
  15-25%; the annual savings, \<open>S/.\<close> followed by the float product of the
  investment and 0.2 rounded to the nearest integer (ties to even) and written
  with thousands separators; the term followed by \<open>anos\<close>; and the passing mark
  with 100%.
\<close>

theorem C8_simular:
  assumes "0 \<le> inversion" and "inversion < 2 ^ 53"
  shows "simular inversion plazo tipo =
           Inr \<lparr>reduccion_co2 = ''15-25%'',
                ahorro_anual =
                  ''S/. '' @ formato_comas_0f
                     (fmul (Fin (of_int inversion)) (redondear (2 / 10))),
                roi = str_int plazo @ '' anos'',
                cumplimiento_legal = (Check, ''100%'')\<rparr>"
  using assms by (simp add: simular_def float_de_int_exacto)

text \<open>
  Witness of C8, the scenario of the claim: an investment of 1000000 over 5 years in
  solar energy gives the savings \<open>S/. 200,000\<close> and the return \<open>5 anos\<close>.
\<close>

theorem C8_simular_escenario:
  "simular 1000000 5 Energia_Solar =
     Inr \<lparr>reduccion_co2 = ''15-25%'', ahorro_anual = ''S/. 200,000'', roi = ''5 anos'',
          cumplimiento_legal = (Check, ''100%'')\<rparr>"
proof -
  have a: "formato_comas_0f (fmul (Fin (of_int 1000000)) (redondear (2 / 10))) = ''200,000''"
    by (simp add: redondear_un_quinto) (simp add: evalr digitos.simps comas.simps)
  have r: "str_int 5 = ''5''" by (simp add: str_int_def digitos.simps)
  show ?thesis using C8_simular [of 1000000 5 Energia_Solar] a r by simp
qed

text \<open>
  C10. Two simulations with the same investment and term and any two technologies
  give the same result in every field.
\<close>

theorem C10_tecnologia_sin_efecto:
  "simular inversion plazo t1 = simular inversion plazo t2"
  by (simp add: simular_def)

subsection \<open>C9: the trend verdict\<close>

text \<open>
  C9, as stated for every baseline, fails: the report has no baseline input. With
  one row of energy 70 the verdict is "improved", although 70 is not below a
  baseline of 50.
\<close>

theorem C9_linea_base_fija:
  "map_sum id tendencia_energia
     (reporte (guardar_datos (2025, 1, 1) Extraccion (Fin 0) (Fin 70) (Fin 0) (Fin 0) []))
     = Inr Mejorado \<and>
   media energia_kwh
     (guardar_datos (2025, 1, 1) Extraccion (Fin 0) (Fin 70) (Fin 0) (Fin 0) []) = Fin 70 \<and>
   \<not> fless (Fin 70) (Fin 50)"
  by (simp add: reporte_def evalf)

text \<open>
  C9, amended. For every frame with rows the trend verdict is "improved" exactly
  when the float mean of the energy column, as the code computes it, is below the
  fixed baseline 100, and "worsened" otherwise.
\<close>

theorem C9_tendencia_linea_base_100:
  assumes "df \<noteq> []"
  shows "\<exists>r. reporte df = Inr r \<and>
           (tendencia_energia r = Mejorado \<longleftrightarrow> fless (media energia_kwh df) (Fin 100)) \<and>
           (tendencia_energia r = Empeorado \<longleftrightarrow> \<not> fless (media energia_kwh df) (Fin 100))"
  using assms by (auto simp: reporte_def)

text \<open>
  Witness of C9: the energies 90.1, 100.3 and 109.6. Their float sum is 300 and
  their float mean 100, which is not below 100: worsened.
\<close>

theorem C9_tendencia_linea_base_100_witness:
  "\<exists>r. reporte
         (ejecutar [Guardar (2025, 1, 1) Extraccion 0 (901 / 10) 0 0,
                    Guardar (2025, 1, 2) Extraccion 0 (1003 / 10) 0 0,
                    Guardar (2025, 1, 3) Extraccion 0 (1096 / 10) 0 0] []) = Inr r \<and>
       tendencia_energia r = Empeorado"
proof -
  let ?df = "ejecutar [Guardar (2025, 1, 1) Extraccion 0 (901 / 10) 0 0,
                    Guardar (2025, 1, 2) Extraccion 0 (1003 / 10) 0 0,
                    Guardar (2025, 1, 3) Extraccion 0 (1096 / 10) 0 0] []"
  have h: "?df \<noteq> []" by (simp add: ejecutar_def guardar_datos_def)
  have c1: "redondear (901 / 10) = Fin (3170111925203763 / 35184372088832)"
    by (simp add: evalr)
  have c2: "redondear (1003 / 10) = Fin (7057985041019699 / 70368744177664)"
    by (simp add: evalr)
  have c3: "redondear (548 / 5) = Fin (3856207180935987 / 35184372088832)"
    by (simp add: evalr)
  have s: "suma energia_kwh ?df = Fin 300"
    by (simp add: ejecutar_def guardar_datos_def suma_def pairwise_sum_corto
        number_input_def redondear_cero c1 c2 c3 evalr)
  have m: "media energia_kwh ?df = Fin 100"
    unfolding media_def s
    by (simp add: ejecutar_def guardar_datos_def redondear_numeral
        number_input_def redondear_cero c1 c2 c3)
  show ?thesis using C9_tendencia_linea_base_100 [OF h] unfolding m by auto
qed

end
